theory Spec2Isabelle
  imports Main
begin

section \<open>The mock generator of expo-modules-test-core\<close>

text \<open>
  A shallow embedding of the mock generator (\<^verbatim>\<open>src/unnamed/part_000\<close>): the
  Swift-to-TypeScript type mapper, the synthesizer of default return statements,
  the builder of function and type-alias declarations, and the scanner that collects
  the type names to be aliased. The nodes of the TypeScript syntax tree that the
  generator builds through \<^verbatim>\<open>ts.factory\<close> are datatypes; a JavaScript string is a
  \<^typ>\<open>string\<close>; an absent (\<^verbatim>\<open>null\<close> or \<^verbatim>\<open>undefined\<close>) value is \<^term>\<open>None\<close>.
\<close>

subsection \<open>Syntax tree nodes\<close>

text \<open>The members of \<^verbatim>\<open>ts.SyntaxKind\<close> that the generator uses.\<close>

datatype SyntaxKind =
    AnyKeyword
  | StringKeyword
  | BooleanKeyword
  | NumberKeyword
  | VoidKeyword
  | ArrayType
  | TypeReference
  | ExportKeyword
  | AsyncKeyword

text \<open>
  Type nodes: \<^verbatim>\<open>createKeywordTypeNode(kind)\<close>, \<^verbatim>\<open>createTypeReferenceNode(name, typeArguments)\<close>
  (no type arguments is the empty list) and \<^verbatim>\<open>createArrayTypeNode(elementType)\<close>.
\<close>

datatype TypeNode =
    KeywordTypeNode SyntaxKind
  | TypeReferenceNode string "TypeNode list"
  | ArrayTypeNode TypeNode

text \<open>The \<^verbatim>\<open>kind\<close> property of a type node.\<close>

fun kind :: "TypeNode \<Rightarrow> SyntaxKind" where
  "kind (KeywordTypeNode k) = k"
| "kind (TypeReferenceNode n args) = TypeReference"
| "kind (ArrayTypeNode t) = ArrayType"

text \<open>Expressions, statements and blocks of the generated function bodies.\<close>

datatype Expression =
    NullLiteral
  | StringLiteral string
  | FalseLiteral
  | NumericLiteral string
  | ArrayLiteralExpression "Expression list"

datatype Statement = ReturnStatement Expression

text \<open>\<^verbatim>\<open>createBlock(statements, multiLine)\<close>.\<close>

datatype Block = Block "Statement list" bool

text \<open>
  \<^verbatim>\<open>createParameterDeclaration(modifiers, dotDotDotToken, name, questionToken, type, initializer)\<close>:
  the generator leaves every field but the name and the type undefined.
\<close>

record ParameterDeclaration =
  pd_name :: string
  pd_type :: TypeNode

text \<open>
  The two declarations the generator emits. A modifier token is its syntax kind.
  \<^verbatim>\<open>createTypeAliasDeclaration(modifiers, name, typeParameters, type)\<close> and
  \<^verbatim>\<open>createFunctionDeclaration(modifiers, asteriskToken, name, typeParameters, parameters, type, body)\<close>;
  the asterisk token and the type parameters are always undefined.
\<close>

datatype Declaration =
    TypeAliasDeclaration "SyntaxKind list" string TypeNode
  | FunctionDeclaration "SyntaxKind list" string "ParameterDeclaration list" TypeNode Block

fun decl_modifiers :: "Declaration \<Rightarrow> SyntaxKind list" where
  "decl_modifiers (TypeAliasDeclaration ms n t) = ms"
| "decl_modifiers (FunctionDeclaration ms n ps t b) = ms"

fun decl_name :: "Declaration \<Rightarrow> string" where
  "decl_name (TypeAliasDeclaration ms n t) = n"
| "decl_name (FunctionDeclaration ms n ps t b) = n"

subsection \<open>The input: module definitions\<close>

text \<open>
  Modelled from the spec: the type declarations \<^verbatim>\<open>Closure\<close>, \<^verbatim>\<open>ClosureTypes\<close> and
  \<^verbatim>\<open>OutputModuleDefinition\<close> of \<^verbatim>\<open>./types\<close> are not among the sources. A parameter is
  a name and a type name; the types of a closure are its parameters and an optional
  return type name; a closure is a name and its types, which may be absent (the source
  reads them with \<^verbatim>\<open>?.\<close>); a module definition is a name and three sequences of
  closures (plain, asynchronous and synchronous functions), its properties in this order.
\<close>

record Parameter =
  name :: string
  typename :: string

record ClosureTypes =
  parameters :: "Parameter list"
  returnType :: "string option"

record Closure =
  closure_name :: string
  types :: "ClosureTypes option"

record OutputModuleDefinition =
  m_name :: string
  m_functions :: "Closure list"
  m_asyncFunctions :: "Closure list"
  m_syncFunctions :: "Closure list"

subsection \<open>Strings\<close>

text \<open>\<^verbatim>\<open>type.startsWith('[')\<close> and \<^verbatim>\<open>type.endsWith(']')\<close>, for a one-character argument.\<close>

definition startsWith :: "string \<Rightarrow> char \<Rightarrow> bool" where
  "startsWith s c = (case s of [] \<Rightarrow> False | x # xs \<Rightarrow> x = c)"

definition endsWith :: "string \<Rightarrow> char \<Rightarrow> bool" where
  "endsWith s c = (case rev s of [] \<Rightarrow> False | x # xs \<Rightarrow> x = c)"

text \<open>
  \<^verbatim>\<open>String.prototype.substring(start, end)\<close>: both indices are clamped to the string,
  and swapped when the first is the larger.
\<close>

definition substring :: "string \<Rightarrow> int \<Rightarrow> int \<Rightarrow> string" where
  "substring s start fin =
     (let len = int (length s);
          a = max 0 (min start len);
          b = max 0 (min fin len);
          lo = min a b;
          hi = max a b
      in take (nat (hi - lo)) (drop (nat lo) s))"

subsection \<open>The type mapper\<close>

definition maybeUnwrapSwiftArray :: "string \<Rightarrow> string" where
  "maybeUnwrapSwiftArray type =
     (let isArray = startsWith type CHR ''['' \<and> endsWith type CHR '']''
      in if \<not> isArray then type
         else substring type 1 (int (length type) - 1))"

definition isSwiftArray :: "string \<Rightarrow> bool" where
  "isSwiftArray type = (startsWith type CHR ''['' \<and> endsWith type CHR '']'')"

text \<open>
  The mapper proper, on a string. The recursion through \<^verbatim>\<open>maybeUnwrapSwiftArray\<close> is
  not structural: the argument loses its two brackets at each call.
\<close>

function mapSwiftTypeToTsType :: "string \<Rightarrow> TypeNode" where
  "mapSwiftTypeToTsType type =
     (if type = [] then KeywordTypeNode VoidKeyword
      else if isSwiftArray type
        then ArrayTypeNode (mapSwiftTypeToTsType (maybeUnwrapSwiftArray type))
      else if type = ''unknown'' then KeywordTypeNode AnyKeyword
      else if type = ''String'' then KeywordTypeNode StringKeyword
      else if type = ''Bool'' then KeywordTypeNode BooleanKeyword
      else if type = ''Int'' \<or> type = ''Float'' \<or> type = ''Double''
        then KeywordTypeNode NumberKeyword
      else TypeReferenceNode type [])"
  by pat_completeness auto
termination
proof (relation "measure length")
  show "wf (measure length)" by simp
next
  fix type :: string
  assume "type \<noteq> []" and arr: "isSwiftArray type"
  from arr have two: "2 \<le> length type"
    by (cases type; cases "tl type")
       (auto simp: isSwiftArray_def startsWith_def endsWith_def)
  with arr have "length (maybeUnwrapSwiftArray type) = length type - 2"
    by (auto simp: maybeUnwrapSwiftArray_def isSwiftArray_def substring_def Let_def)
  with two show "(maybeUnwrapSwiftArray type, type) \<in> measure length" by simp
qed

declare mapSwiftTypeToTsType.simps [simp del]

text \<open>
  The same function at an argument that may be undefined, as
  \<^verbatim>\<open>fnStructure.types?.returnType\<close> is: \<^verbatim>\<open>!type\<close> holds of \<^verbatim>\<open>undefined\<close> as it does of
  the empty string.
\<close>

definition mapSwiftTypeToTsType_undef :: "string option \<Rightarrow> TypeNode" where
  "mapSwiftTypeToTsType_undef type =
     (case type of
        None \<Rightarrow> KeywordTypeNode VoidKeyword
      | Some s \<Rightarrow> mapSwiftTypeToTsType s)"

text \<open>
  The mapper on a bounded call stack. The recursive call of the source is an argument
  of \<^verbatim>\<open>createArrayTypeNode\<close>, not a tail call: every pair of brackets keeps one more
  call of the mapper on the stack. \<open>frames\<close> is the number of nested calls of the mapper
  that the stack still has room for, a number of the engine and a parameter here; a call
  that finds no room throws \<^verbatim>\<open>RangeError\<close> (maximum call stack size exceeded), which
  nothing in the generator catches.
\<close>

datatype error = RangeError

fun mapSwiftTypeToTsType_stack :: "nat \<Rightarrow> string \<Rightarrow> error + TypeNode" where
  "mapSwiftTypeToTsType_stack 0 type = Inl RangeError"
| "mapSwiftTypeToTsType_stack (Suc frames) type =
     (if type = [] then Inr (KeywordTypeNode VoidKeyword)
      else if isSwiftArray type
        then (case mapSwiftTypeToTsType_stack frames (maybeUnwrapSwiftArray type) of
                Inl e \<Rightarrow> Inl e
              | Inr t \<Rightarrow> Inr (ArrayTypeNode t))
      else if type = ''unknown'' then Inr (KeywordTypeNode AnyKeyword)
      else if type = ''String'' then Inr (KeywordTypeNode StringKeyword)
      else if type = ''Bool'' then Inr (KeywordTypeNode BooleanKeyword)
      else if type = ''Int'' \<or> type = ''Float'' \<or> type = ''Double''
        then Inr (KeywordTypeNode NumberKeyword)
      else Inr (TypeReferenceNode type []))"

text \<open>The number of array types around the innermost type of a type node.\<close>

fun arrayDepth :: "TypeNode \<Rightarrow> nat" where
  "arrayDepth (ArrayTypeNode t) = Suc (arrayDepth t)"
| "arrayDepth (KeywordTypeNode k) = 0"
| "arrayDepth (TypeReferenceNode n args) = 0"

subsection \<open>Default return statements\<close>

text \<open>
  The argument is always a node, so the guard \<^verbatim>\<open>!tsReturnType\<close> never holds; the kinds
  the \<^verbatim>\<open>switch\<close> does not list fall through to the final \<^verbatim>\<open>return []\<close>.
\<close>

definition getMockReturnStatements :: "TypeNode \<Rightarrow> Statement list" where
  "getMockReturnStatements tsReturnType =
     (case kind tsReturnType of
        AnyKeyword \<Rightarrow> [ReturnStatement NullLiteral]
      | StringKeyword \<Rightarrow> [ReturnStatement (StringLiteral [])]
      | BooleanKeyword \<Rightarrow> [ReturnStatement FalseLiteral]
      | NumberKeyword \<Rightarrow> [ReturnStatement (NumericLiteral ''0'')]
      | VoidKeyword \<Rightarrow> []
      | ArrayType \<Rightarrow> [ReturnStatement (ArrayLiteralExpression [])]
      | _ \<Rightarrow> [])"

subsection \<open>Function declarations\<close>

definition wrapWithAsync :: "TypeNode \<Rightarrow> TypeNode" where
  "wrapWithAsync tsType = TypeReferenceNode ''Promise'' [tsType]"

text \<open>
  \<^verbatim>\<open>fnStructure.types?.returnType\<close> and
  \<^verbatim>\<open>fnStructure?.types?.parameters.map(...) ?? []\<close>: undefined, and the empty list, when
  the types are absent.
\<close>

definition getMockedFunctions :: "Closure list \<Rightarrow> bool \<Rightarrow> Declaration list" where
  "getMockedFunctions fns async =
     map (\<lambda>fnStructure.
       let name = closure_name fnStructure;
           returnType = mapSwiftTypeToTsType_undef
             (case types fnStructure of None \<Rightarrow> None | Some t \<Rightarrow> returnType t)
       in FunctionDeclaration
            (map the (filter (\<lambda>f. f \<noteq> None)
               [Some ExportKeyword, if async then Some AsyncKeyword else None]))
            name
            (case types fnStructure of
               None \<Rightarrow> []
             | Some t \<Rightarrow>
                 map (\<lambda>p. \<lparr>pd_name = Parameter.name p,
                            pd_type = mapSwiftTypeToTsType (typename p)\<rparr>)
                   (parameters t))
            (if async then wrapWithAsync returnType else returnType)
            (Block (getMockReturnStatements returnType) True))
       fns"

fun decl_type :: "Declaration \<Rightarrow> TypeNode" where
  "decl_type (TypeAliasDeclaration ms n t) = t"
| "decl_type (FunctionDeclaration ms n ps t b) = t"

fun decl_parameters :: "Declaration \<Rightarrow> ParameterDeclaration list" where
  "decl_parameters (TypeAliasDeclaration ms n t) = []"
| "decl_parameters (FunctionDeclaration ms n ps t b) = ps"

fun decl_body :: "Declaration \<Rightarrow> Block option" where
  "decl_body (TypeAliasDeclaration ms n t) = None"
| "decl_body (FunctionDeclaration ms n ps t b) = Some b"

subsection \<open>The types to mock\<close>

text \<open>
  \<^verbatim>\<open>Object.values(module)\<close>: the values of the properties, in the order of the
  properties; a value is a string or an array of closures.
\<close>

datatype PropertyValue = StringValue string | ArrayValue "Closure list"

definition objectValues :: "OutputModuleDefinition \<Rightarrow> PropertyValue list" where
  "objectValues m =
     [StringValue (m_name m), ArrayValue (m_functions m),
      ArrayValue (m_asyncFunctions m), ArrayValue (m_syncFunctions m)]"

text \<open>
  \<^verbatim>\<open>new Set(array)\<close>: a set keeps its elements in the order of their first insertion,
  which is the order \<^verbatim>\<open>Array.from\<close> reads them in.
\<close>

definition newSet :: "'a list \<Rightarrow> 'a list" where
  "newSet xs = fold (\<lambda>x s. if x \<in> set s then s else s @ [x]) xs []"

text \<open>
  The body of the \<^verbatim>\<open>forEach\<close>, with the array \<^verbatim>\<open>foundTypes\<close> passed through: the
  unwrapped type name of each parameter is pushed, then the unwrapped return type when
  there is one and it is not the empty string.
\<close>

definition pushFoundTypes :: "ClosureTypes option \<Rightarrow> string list \<Rightarrow> string list" where
  "pushFoundTypes tys foundTypes =
     (case tys of
        None \<Rightarrow> foundTypes
      | Some ty \<Rightarrow>
          (let found1 = fold (\<lambda>p acc. acc @ [maybeUnwrapSwiftArray (typename p)])
                          (parameters ty) foundTypes
           in case returnType ty of
                None \<Rightarrow> found1
              | Some r \<Rightarrow> if r \<noteq> [] then found1 @ [maybeUnwrapSwiftArray r] else found1))"

definition getTypesToMock :: "OutputModuleDefinition \<Rightarrow> string list" where
  "getTypesToMock m =
     (let foundTypes =
            fold pushFoundTypes
              (concat (map (\<lambda>t. case t of ArrayValue a \<Rightarrow> map types a | _ \<Rightarrow> [])
                         (objectValues m)))
              []
      in newSet (filter (\<lambda>ft. kind (mapSwiftTypeToTsType ft) = TypeReference) foundTypes))"

definition getMockedTypes :: "string list \<Rightarrow> Declaration list" where
  "getMockedTypes tys =
     map (\<lambda>type. TypeAliasDeclaration [ExportKeyword] type (KeywordTypeNode AnyKeyword)) tys"

subsection \<open>The declarations of a module\<close>

definition getMockForModule :: "OutputModuleDefinition \<Rightarrow> Declaration list" where
  "getMockForModule m =
     [] @ getMockedTypes (getTypesToMock m)
        @ getMockedFunctions (m_functions m) False
        @ getMockedFunctions (m_asyncFunctions m) True"

subsection \<open>The textual form of a type node\<close>

text \<open>
  The generator prints the declarations with the printer of the TypeScript library
  (\<^verbatim>\<open>ts.createPrinter\<close>, \<^verbatim>\<open>printer.printList\<close>), which is not part of the repository.
  Its output on the type nodes above is fixed by the syntax of TypeScript: a keyword
  type is its keyword, an array type is its element type followed by \<^verbatim>\<open>[]\<close>, a type
  reference is its name followed by its type arguments, if any, between angle brackets.
\<close>

fun tokenToString :: "SyntaxKind \<Rightarrow> string" where
  "tokenToString AnyKeyword = ''any''"
| "tokenToString StringKeyword = ''string''"
| "tokenToString BooleanKeyword = ''boolean''"
| "tokenToString NumberKeyword = ''number''"
| "tokenToString VoidKeyword = ''void''"
| "tokenToString ExportKeyword = ''export''"
| "tokenToString AsyncKeyword = ''async''"
| "tokenToString ArrayType = []"
| "tokenToString TypeReference = []"

fun joinWith :: "string \<Rightarrow> string list \<Rightarrow> string" where
  "joinWith sep [] = []"
| "joinWith sep [x] = x"
| "joinWith sep (x # y # ys) = x @ sep @ joinWith sep (y # ys)"

fun printTypeNode :: "TypeNode \<Rightarrow> string" where
  "printTypeNode (KeywordTypeNode k) = tokenToString k"
| "printTypeNode (ArrayTypeNode t) = printTypeNode t @ ''[]''"
| "printTypeNode (TypeReferenceNode n args) =
     (if args = [] then n
      else n @ ''<'' @ joinWith '', '' (map printTypeNode args) @ ''>'')"

section \<open>Properties of the type mapper\<close>

subsection \<open>Brackets\<close>

lemma isSwiftArray_length: "isSwiftArray s \<Longrightarrow> 2 \<le> length s"
  by (cases s; cases "tl s") (auto simp: isSwiftArray_def startsWith_def endsWith_def)

lemma maybeUnwrapSwiftArray_length:
  "isSwiftArray s \<Longrightarrow> length (maybeUnwrapSwiftArray s) = length s - 2"
  using isSwiftArray_length [of s]
  by (auto simp: maybeUnwrapSwiftArray_def isSwiftArray_def substring_def Let_def)

lemma isSwiftArray_wrap: "isSwiftArray (CHR ''['' # T @ '']'')"
  by (simp add: isSwiftArray_def startsWith_def endsWith_def)

lemma maybeUnwrapSwiftArray_wrap: "maybeUnwrapSwiftArray (CHR ''['' # T @ '']'') = T"
  by (simp add: maybeUnwrapSwiftArray_def startsWith_def endsWith_def substring_def)

lemma not_isSwiftArray_prims:
  "\<not> isSwiftArray ''unknown''" "\<not> isSwiftArray ''String''" "\<not> isSwiftArray ''Bool''"
  "\<not> isSwiftArray ''Int''" "\<not> isSwiftArray ''Float''" "\<not> isSwiftArray ''Double''"
  by (simp_all add: isSwiftArray_def startsWith_def)

subsection \<open>The branches of the mapper\<close>

lemma mapSwiftTypeToTsType_empty: "mapSwiftTypeToTsType [] = KeywordTypeNode VoidKeyword"
  by (subst mapSwiftTypeToTsType.simps) simp

lemma mapSwiftTypeToTsType_wrap:
  "mapSwiftTypeToTsType (CHR ''['' # T @ '']'') = ArrayTypeNode (mapSwiftTypeToTsType T)"
  by (subst mapSwiftTypeToTsType.simps)
     (simp add: isSwiftArray_wrap maybeUnwrapSwiftArray_wrap)

lemma mapSwiftTypeToTsType_bare:
  "s \<noteq> [] \<Longrightarrow> \<not> isSwiftArray s \<Longrightarrow> mapSwiftTypeToTsType s =
     (if s = ''unknown'' then KeywordTypeNode AnyKeyword
      else if s = ''String'' then KeywordTypeNode StringKeyword
      else if s = ''Bool'' then KeywordTypeNode BooleanKeyword
      else if s = ''Int'' \<or> s = ''Float'' \<or> s = ''Double''
        then KeywordTypeNode NumberKeyword
      else TypeReferenceNode s [])"
  by (subst mapSwiftTypeToTsType.simps) simp

lemma mapSwiftTypeToTsType_wrap_n:
  "mapSwiftTypeToTsType (replicate n CHR ''['' @ T @ replicate n CHR '']'')
     = (ArrayTypeNode ^^ n) (mapSwiftTypeToTsType T)"
proof (induction n)
  case 0
  show ?case by simp
next
  case (Suc n)
  have "replicate (Suc n) CHR ''['' @ T @ replicate (Suc n) CHR '']''
      = CHR ''['' # (replicate n CHR ''['' @ T @ replicate n CHR '']'') @ '']''"
    by (simp add: replicate_append_same)
  then have "mapSwiftTypeToTsType (replicate (Suc n) CHR ''['' @ T @ replicate (Suc n) CHR '']'')
      = ArrayTypeNode (mapSwiftTypeToTsType (replicate n CHR ''['' @ T @ replicate n CHR '']''))"
    by (simp only: mapSwiftTypeToTsType_wrap)
  with Suc.IH show ?case by simp
qed

lemma mapSwiftTypeToTsType_TypeReference:
  "kind (mapSwiftTypeToTsType s) = TypeReference \<Longrightarrow>
     mapSwiftTypeToTsType s = TypeReferenceNode s []"
  by (subst mapSwiftTypeToTsType.simps, subst (asm) mapSwiftTypeToTsType.simps)
     (auto split: if_splits)

lemma mapSwiftTypeToTsType_keyword_cases:
  "mapSwiftTypeToTsType s = KeywordTypeNode k \<Longrightarrow>
     k \<in> {VoidKeyword, AnyKeyword, StringKeyword, BooleanKeyword, NumberKeyword}"
  by (subst (asm) mapSwiftTypeToTsType.simps) (auto split: if_splits)

text \<open>
  C1: the empty string maps to void, \<^verbatim>\<open>unknown\<close> to any, \<^verbatim>\<open>String\<close> to string,
  \<^verbatim>\<open>Bool\<close> to boolean, \<^verbatim>\<open>Int\<close>, \<^verbatim>\<open>Float\<close> and \<^verbatim>\<open>Double\<close> to number, and every
  other name that is not in array syntax to a type reference that carries the name
  unchanged. The mapper has no failing branch.
\<close>

theorem mapSwiftTypeToTsType_classification:
  "mapSwiftTypeToTsType [] = KeywordTypeNode VoidKeyword
   \<and> mapSwiftTypeToTsType ''unknown'' = KeywordTypeNode AnyKeyword
   \<and> mapSwiftTypeToTsType ''String'' = KeywordTypeNode StringKeyword
   \<and> mapSwiftTypeToTsType ''Bool'' = KeywordTypeNode BooleanKeyword
   \<and> mapSwiftTypeToTsType ''Int'' = KeywordTypeNode NumberKeyword
   \<and> mapSwiftTypeToTsType ''Float'' = KeywordTypeNode NumberKeyword
   \<and> mapSwiftTypeToTsType ''Double'' = KeywordTypeNode NumberKeyword
   \<and> (s \<noteq> [] \<and> \<not> isSwiftArray s
        \<and> s \<notin> {''unknown'', ''String'', ''Bool'', ''Int'', ''Float'', ''Double''}
      \<longrightarrow> mapSwiftTypeToTsType s = TypeReferenceNode s [])"
  by (simp add: mapSwiftTypeToTsType_empty mapSwiftTypeToTsType_bare not_isSwiftArray_prims)

theorem mapSwiftTypeToTsType_classification_witness:
  "''CustomRecord'' \<noteq> [] \<and> \<not> isSwiftArray ''CustomRecord''
   \<and> ''CustomRecord'' \<notin> {''unknown'', ''String'', ''Bool'', ''Int'', ''Float'', ''Double''}
   \<and> mapSwiftTypeToTsType ''CustomRecord'' = TypeReferenceNode ''CustomRecord'' []"
  using mapSwiftTypeToTsType_classification [of "''CustomRecord''"]
  by (simp add: isSwiftArray_def startsWith_def)

text \<open>
  C2: for every name \<open>T\<close>, the name \<^verbatim>\<open>[T]\<close> maps to the array of the mapped \<open>T\<close> and
  \<^verbatim>\<open>[[T]]\<close> to the array of arrays of it; unwrapping removes exactly one pair of
  brackets, and \<open>n\<close> pairs of brackets give \<open>n\<close> array types, for every \<open>n\<close>.
\<close>

theorem mapSwiftTypeToTsType_array_nesting:
  "mapSwiftTypeToTsType (''['' @ T @ '']'') = ArrayTypeNode (mapSwiftTypeToTsType T)
   \<and> mapSwiftTypeToTsType (''[['' @ T @ '']]'')
       = ArrayTypeNode (ArrayTypeNode (mapSwiftTypeToTsType T))
   \<and> maybeUnwrapSwiftArray (''['' @ T @ '']'') = T
   \<and> mapSwiftTypeToTsType (replicate n CHR ''['' @ T @ replicate n CHR '']'')
       = (ArrayTypeNode ^^ n) (mapSwiftTypeToTsType T)"
proof -
  have one: "mapSwiftTypeToTsType (''['' @ T @ '']'') = ArrayTypeNode (mapSwiftTypeToTsType T)"
    using mapSwiftTypeToTsType_wrap [of T] by simp
  have "''[['' @ T @ '']]'' = CHR ''['' # (CHR ''['' # T @ '']'') @ '']''" by simp
  then have two: "mapSwiftTypeToTsType (''[['' @ T @ '']]'')
       = ArrayTypeNode (ArrayTypeNode (mapSwiftTypeToTsType T))"
    by (simp only: mapSwiftTypeToTsType_wrap)
  have three: "maybeUnwrapSwiftArray (''['' @ T @ '']'') = T"
    using maybeUnwrapSwiftArray_wrap [of T] by simp
  from one two three mapSwiftTypeToTsType_wrap_n [of n T] show ?thesis by blast
qed

text \<open>
  C9: the two-character name \<^verbatim>\<open>[]\<close> is in array syntax and its inner name is empty, so
  it maps to the array of void.
\<close>

theorem mapSwiftTypeToTsType_empty_brackets:
  "mapSwiftTypeToTsType ''[]'' = ArrayTypeNode (KeywordTypeNode VoidKeyword)"
  using mapSwiftTypeToTsType_wrap [of "[]"] by (simp add: mapSwiftTypeToTsType_empty)

subsection \<open>The mapper on a bounded call stack\<close>

lemma arrayDepth_funpow: "arrayDepth ((ArrayTypeNode ^^ n) t) = n + arrayDepth t"
  by (induction n) simp_all

text \<open>
  The mapper returns exactly when the stack has room for one call more than the mapped
  type has nested array types, and then with the value of the total function.
\<close>

lemma mapSwiftTypeToTsType_stack_eq:
  "mapSwiftTypeToTsType_stack frames s =
     (if arrayDepth (mapSwiftTypeToTsType s) < frames then Inr (mapSwiftTypeToTsType s)
      else Inl RangeError)"
proof (induction frames arbitrary: s)
  case 0
  show ?case by simp
next
  case (Suc frames)
  show ?case
  proof (cases "s \<noteq> [] \<and> isSwiftArray s")
    case True
    then have m: "mapSwiftTypeToTsType s
        = ArrayTypeNode (mapSwiftTypeToTsType (maybeUnwrapSwiftArray s))"
      by (subst mapSwiftTypeToTsType.simps) simp
    from True have "mapSwiftTypeToTsType_stack (Suc frames) s
        = (case mapSwiftTypeToTsType_stack frames (maybeUnwrapSwiftArray s) of
             Inl e \<Rightarrow> Inl e | Inr t \<Rightarrow> Inr (ArrayTypeNode t))"
      by simp
    also have "\<dots> = (if arrayDepth (mapSwiftTypeToTsType (maybeUnwrapSwiftArray s)) < frames
        then Inr (ArrayTypeNode (mapSwiftTypeToTsType (maybeUnwrapSwiftArray s)))
        else Inl RangeError)"
      by (simp add: Suc.IH)
    finally show ?thesis by (simp add: m)
  next
    case False
    then have "arrayDepth (mapSwiftTypeToTsType s) = 0"
      by (subst mapSwiftTypeToTsType.simps) auto
    moreover from False have "mapSwiftTypeToTsType_stack (Suc frames) s
        = Inr (mapSwiftTypeToTsType s)"
      by (subst mapSwiftTypeToTsType.simps) auto
    ultimately show ?thesis by simp
  qed
qed

text \<open>A name has at least two characters for each array type of its mapped type.\<close>

lemma arrayDepth_length: "2 * arrayDepth (mapSwiftTypeToTsType s) \<le> length s"
proof (induction s rule: mapSwiftTypeToTsType.induct)
  case (1 type)
  show ?case
  proof (cases "type \<noteq> [] \<and> isSwiftArray type")
    case True
    then have m: "mapSwiftTypeToTsType type
        = ArrayTypeNode (mapSwiftTypeToTsType (maybeUnwrapSwiftArray type))"
      by (subst mapSwiftTypeToTsType.simps) simp
    from True 1 have "2 * arrayDepth (mapSwiftTypeToTsType (maybeUnwrapSwiftArray type))
        \<le> length (maybeUnwrapSwiftArray type)" by simp
    with True isSwiftArray_length [of type] maybeUnwrapSwiftArray_length [of type]
    show ?thesis by (simp add: m)
  next
    case False
    then have "arrayDepth (mapSwiftTypeToTsType type) = 0"
      by (subst mapSwiftTypeToTsType.simps) auto
    then show ?thesis by simp
  qed
qed

text \<open>
  C8, as stated: the mapper returns a mapped type on every string and never throws. It
  fails on deep nesting: on a stack with room for ten thousand nested calls, the name
  of twenty thousand pairs of brackets throws \<^verbatim>\<open>RangeError\<close>, as \<^verbatim>\<open>[[Int]]\<close> does on a
  stack with room for two.
\<close>

theorem mapSwiftTypeToTsType_stack_counterexample:
  "mapSwiftTypeToTsType_stack 10000
      (replicate 20000 CHR ''['' @ replicate 20000 CHR '']'') = Inl RangeError
   \<and> mapSwiftTypeToTsType_stack 2 ''[[Int]]'' = Inl RangeError"
proof
  have "mapSwiftTypeToTsType (replicate 20000 CHR ''['' @ [] @ replicate 20000 CHR '']'')
      = (ArrayTypeNode ^^ 20000) (mapSwiftTypeToTsType [])"
    by (rule mapSwiftTypeToTsType_wrap_n)
  then have "arrayDepth (mapSwiftTypeToTsType
      (replicate 20000 CHR ''['' @ replicate 20000 CHR '']'')) = 20000"
    by (simp only: append_Nil arrayDepth_funpow mapSwiftTypeToTsType_empty
          arrayDepth.simps add_0_right)
  then show "mapSwiftTypeToTsType_stack 10000
      (replicate 20000 CHR ''['' @ replicate 20000 CHR '']'') = Inl RangeError"
    by (simp only: mapSwiftTypeToTsType_stack_eq) simp
next
  have "mapSwiftTypeToTsType (''[['' @ ''Int'' @ '']]'')
      = ArrayTypeNode (ArrayTypeNode (mapSwiftTypeToTsType ''Int''))"
    using mapSwiftTypeToTsType_wrap [of "''[Int]''"] mapSwiftTypeToTsType_wrap [of "''Int''"]
    by simp
  then have "arrayDepth (mapSwiftTypeToTsType ''[[Int]]'') = 2"
    by (simp add: mapSwiftTypeToTsType_bare not_isSwiftArray_prims)
  then show "mapSwiftTypeToTsType_stack 2 ''[[Int]]'' = Inl RangeError"
    by (simp only: mapSwiftTypeToTsType_stack_eq) simp
qed

text \<open>
  C8, amended: the mapper is pure and its recursion ends on every string, the empty one
  included, each recursive call being on a shorter string and a name holding at least
  two characters for each level of nesting. It returns the mapped type without throwing
  exactly when the stack has room for more nested calls than the mapped type has nested
  array types; otherwise it throws \<^verbatim>\<open>RangeError\<close>. Room for more than half the length
  of the name is always enough.
\<close>

theorem mapSwiftTypeToTsType_stack_result:
  "mapSwiftTypeToTsType_stack frames s =
     (if arrayDepth (mapSwiftTypeToTsType s) < frames then Inr (mapSwiftTypeToTsType s)
      else Inl RangeError)
   \<and> 2 * arrayDepth (mapSwiftTypeToTsType s) \<le> length s
   \<and> (length s div 2 < frames \<longrightarrow>
        mapSwiftTypeToTsType_stack frames s = Inr (mapSwiftTypeToTsType s))
   \<and> (isSwiftArray s \<longrightarrow> length (maybeUnwrapSwiftArray s) < length s)"
proof (intro conjI impI)
  show "mapSwiftTypeToTsType_stack frames s =
     (if arrayDepth (mapSwiftTypeToTsType s) < frames then Inr (mapSwiftTypeToTsType s)
      else Inl RangeError)"
    by (rule mapSwiftTypeToTsType_stack_eq)
next
  show "2 * arrayDepth (mapSwiftTypeToTsType s) \<le> length s"
    by (rule arrayDepth_length)
next
  assume "length s div 2 < frames"
  with arrayDepth_length [of s] have "arrayDepth (mapSwiftTypeToTsType s) < frames"
    by linarith
  then show "mapSwiftTypeToTsType_stack frames s = Inr (mapSwiftTypeToTsType s)"
    by (simp add: mapSwiftTypeToTsType_stack_eq)
next
  assume "isSwiftArray s"
  with isSwiftArray_length [of s] maybeUnwrapSwiftArray_length [of s]
  show "length (maybeUnwrapSwiftArray s) < length s" by simp
qed

theorem mapSwiftTypeToTsType_stack_result_witness:
  "length ''[[Int]]'' div 2 < 4
   \<and> mapSwiftTypeToTsType_stack 4 ''[[Int]]''
       = Inr (ArrayTypeNode (ArrayTypeNode (KeywordTypeNode NumberKeyword)))
   \<and> arrayDepth (mapSwiftTypeToTsType ''[[Int]]'') = 2
   \<and> isSwiftArray ''[[Int]]''
   \<and> length (maybeUnwrapSwiftArray ''[[Int]]'') < length ''[[Int]]''"
proof -
  have arr: "isSwiftArray ''[[Int]]''"
    by (simp add: isSwiftArray_def startsWith_def endsWith_def)
  have "mapSwiftTypeToTsType (''[['' @ ''Int'' @ '']]'')
      = ArrayTypeNode (ArrayTypeNode (mapSwiftTypeToTsType ''Int''))"
    using mapSwiftTypeToTsType_wrap [of "''[Int]''"] mapSwiftTypeToTsType_wrap [of "''Int''"]
    by simp
  then have m: "mapSwiftTypeToTsType ''[[Int]]''
      = ArrayTypeNode (ArrayTypeNode (KeywordTypeNode NumberKeyword))"
    by (simp add: mapSwiftTypeToTsType_bare not_isSwiftArray_prims)
  have len: "length ''[[Int]]'' div 2 < 4" by simp
  from arr m len mapSwiftTypeToTsType_stack_result [of 4 "''[[Int]]''"] show ?thesis
    by simp
qed

section \<open>Properties of the generated declarations\<close>

text \<open>
  C3: the default return statements, kind by kind: \<^verbatim>\<open>return null\<close> for any,
  \<^verbatim>\<open>return ''\<close> for string, \<^verbatim>\<open>return false\<close> for boolean, \<^verbatim>\<open>return 0\<close> for number,
  nothing for void, \<^verbatim>\<open>return []\<close> for an array type whatever its element type, and
  nothing for a type reference, as for void.
\<close>

theorem getMockReturnStatements_by_kind:
  "getMockReturnStatements (KeywordTypeNode AnyKeyword) = [ReturnStatement NullLiteral]
   \<and> getMockReturnStatements (KeywordTypeNode StringKeyword)
       = [ReturnStatement (StringLiteral [])]
   \<and> getMockReturnStatements (KeywordTypeNode BooleanKeyword) = [ReturnStatement FalseLiteral]
   \<and> getMockReturnStatements (KeywordTypeNode NumberKeyword)
       = [ReturnStatement (NumericLiteral ''0'')]
   \<and> getMockReturnStatements (KeywordTypeNode VoidKeyword) = []
   \<and> getMockReturnStatements (ArrayTypeNode t) = [ReturnStatement (ArrayLiteralExpression [])]
   \<and> getMockReturnStatements (TypeReferenceNode n args) = []
   \<and> getMockReturnStatements (TypeReferenceNode n args)
       = getMockReturnStatements (KeywordTypeNode VoidKeyword)"
  by (simp add: getMockReturnStatements_def)

text \<open>
  C4: built asynchronously, every closure of the list becomes a declaration with the
  modifiers \<^verbatim>\<open>export async\<close>, whose declared type is \<^verbatim>\<open>Promise\<close> of the mapped
  return type and whose body holds the default statements of the mapped return type
  itself, not of the promise: the body is the one of the synchronous build.
\<close>

theorem getMockedFunctions_async:
  "map decl_modifiers (getMockedFunctions fns True)
     = map (\<lambda>f. [ExportKeyword, AsyncKeyword]) fns
   \<and> map decl_type (getMockedFunctions fns True)
     = map (\<lambda>f. TypeReferenceNode ''Promise''
               [mapSwiftTypeToTsType_undef
                  (case types f of None \<Rightarrow> None | Some t \<Rightarrow> returnType t)]) fns
   \<and> map decl_body (getMockedFunctions fns True)
     = map (\<lambda>f. Some (Block (getMockReturnStatements
               (mapSwiftTypeToTsType_undef
                  (case types f of None \<Rightarrow> None | Some t \<Rightarrow> returnType t))) True)) fns
   \<and> map decl_body (getMockedFunctions fns True)
     = map decl_body (getMockedFunctions fns False)"
  by (simp add: getMockedFunctions_def wrapWithAsync_def Let_def)

text \<open>
  C10: a closure without types becomes a function with no parameter, the declared type
  \<^verbatim>\<open>void\<close> (\<^verbatim>\<open>Promise<void>\<close> when asynchronous) and an empty body; the builder
  has no failing branch for it.
\<close>

theorem getMockedFunctions_absent_types:
  "types c = None \<Longrightarrow>
     getMockedFunctions [c] False
       = [FunctionDeclaration [ExportKeyword] (closure_name c) []
            (KeywordTypeNode VoidKeyword) (Block [] True)]
   \<and> getMockedFunctions [c] True
       = [FunctionDeclaration [ExportKeyword, AsyncKeyword] (closure_name c) []
            (TypeReferenceNode ''Promise'' [KeywordTypeNode VoidKeyword]) (Block [] True)]"
  by (simp add: getMockedFunctions_def wrapWithAsync_def Let_def
        mapSwiftTypeToTsType_undef_def getMockReturnStatements_def)

theorem getMockedFunctions_absent_types_witness:
  "types \<lparr>closure_name = ''reload'', types = None\<rparr> = None
   \<and> getMockedFunctions [\<lparr>closure_name = ''reload'', types = None\<rparr>] False
       = [FunctionDeclaration [ExportKeyword] ''reload'' []
            (KeywordTypeNode VoidKeyword) (Block [] True)]
   \<and> getMockedFunctions [\<lparr>closure_name = ''reload'', types = None\<rparr>] True
       = [FunctionDeclaration [ExportKeyword, AsyncKeyword] ''reload'' []
            (TypeReferenceNode ''Promise'' [KeywordTypeNode VoidKeyword]) (Block [] True)]"
  using getMockedFunctions_absent_types [of "\<lparr>closure_name = ''reload'', types = None\<rparr>"]
  by simp

section \<open>Properties of the scanner\<close>

lemma newSet_fold:
  "set (fold (\<lambda>x s. if x \<in> set s then s else s @ [x]) xs acc) = set acc \<union> set xs
   \<and> (distinct acc \<longrightarrow> distinct (fold (\<lambda>x s. if x \<in> set s then s else s @ [x]) xs acc))"
  by (induction xs arbitrary: acc) auto

lemma set_newSet: "set (newSet xs) = set xs"
  by (simp add: newSet_def newSet_fold)

lemma distinct_newSet: "distinct (newSet xs)"
  by (simp add: newSet_def newSet_fold)

lemma fold_push_parameters:
  "fold (\<lambda>p acc. acc @ [maybeUnwrapSwiftArray (typename p)]) ps acc
     = acc @ map (\<lambda>p. maybeUnwrapSwiftArray (typename p)) ps"
  by (induction ps arbitrary: acc) simp_all

lemma pushFoundTypes_append:
  "pushFoundTypes tys acc = acc @ pushFoundTypes tys []"
  by (simp add: pushFoundTypes_def fold_push_parameters Let_def split: option.splits)

lemma fold_pushFoundTypes:
  "fold pushFoundTypes tys acc = acc @ concat (map (\<lambda>t. pushFoundTypes t []) tys)"
proof (induction tys arbitrary: acc)
  case Nil
  show ?case by simp
next
  case (Cons t tys)
  have "fold pushFoundTypes (t # tys) acc = fold pushFoundTypes tys (pushFoundTypes t acc)"
    by simp
  also have "\<dots> = pushFoundTypes t acc @ concat (map (\<lambda>t. pushFoundTypes t []) tys)"
    by (rule Cons.IH)
  also have "\<dots> = acc @ pushFoundTypes t [] @ concat (map (\<lambda>t. pushFoundTypes t []) tys)"
    using pushFoundTypes_append [of t acc] by simp
  finally show ?case by simp
qed

lemma set_pushFoundTypes:
  "set (pushFoundTypes (Some ty) [])
     = maybeUnwrapSwiftArray ` (typename ` set (parameters ty)
          \<union> {r. returnType ty = Some r \<and> r \<noteq> []})"
  by (auto simp: pushFoundTypes_def fold_push_parameters Let_def split: option.splits)

text \<open>The result of the scanner has no duplicates.\<close>

lemma getTypesToMock_distinct: "distinct (getTypesToMock m)"
  by (simp add: getTypesToMock_def Let_def distinct_newSet)

text \<open>
  What the scanner collects: the names that map to a type reference among the type
  names of the parameters and the return types of all closures of the module, each
  with one pair of brackets removed if it has one.
\<close>

lemma getTypesToMock_iff:
  "n \<in> set (getTypesToMock m) \<longleftrightarrow>
     kind (mapSwiftTypeToTsType n) = TypeReference
     \<and> (\<exists>c \<in> set (m_functions m @ m_asyncFunctions m @ m_syncFunctions m).
          \<exists>ty. types c = Some ty
            \<and> n \<in> maybeUnwrapSwiftArray ` (typename ` set (parameters ty)
                    \<union> {r. returnType ty = Some r \<and> r \<noteq> []}))"
proof -
  have found: "set (fold pushFoundTypes
        (concat (map (\<lambda>t. case t of ArrayValue a \<Rightarrow> map types a | _ \<Rightarrow> []) (objectValues m))) [])
      = (\<Union>c \<in> set (m_functions m @ m_asyncFunctions m @ m_syncFunctions m).
           set (pushFoundTypes (types c) []))"
    by (simp add: fold_pushFoundTypes objectValues_def)
  have none: "pushFoundTypes None [] = []" by (simp add: pushFoundTypes_def)
  have "n \<in> (\<Union>c \<in> set (m_functions m @ m_asyncFunctions m @ m_syncFunctions m).
           set (pushFoundTypes (types c) [])) \<longleftrightarrow>
     (\<exists>c \<in> set (m_functions m @ m_asyncFunctions m @ m_syncFunctions m).
          \<exists>ty. types c = Some ty
            \<and> n \<in> maybeUnwrapSwiftArray ` (typename ` set (parameters ty)
                    \<union> {r. returnType ty = Some r \<and> r \<noteq> []}))"
  proof
    assume "n \<in> (\<Union>c \<in> set (m_functions m @ m_asyncFunctions m @ m_syncFunctions m).
           set (pushFoundTypes (types c) []))"
    then obtain c where c: "c \<in> set (m_functions m @ m_asyncFunctions m @ m_syncFunctions m)"
      and n: "n \<in> set (pushFoundTypes (types c) [])" by blast
    from n none obtain ty where ty: "types c = Some ty" by (cases "types c") auto
    with n have "n \<in> maybeUnwrapSwiftArray ` (typename ` set (parameters ty)
                    \<union> {r. returnType ty = Some r \<and> r \<noteq> []})"
      by (simp only: set_pushFoundTypes)
    with c ty show "\<exists>c \<in> set (m_functions m @ m_asyncFunctions m @ m_syncFunctions m).
          \<exists>ty. types c = Some ty
            \<and> n \<in> maybeUnwrapSwiftArray ` (typename ` set (parameters ty)
                    \<union> {r. returnType ty = Some r \<and> r \<noteq> []})" by blast
  next
    assume "\<exists>c \<in> set (m_functions m @ m_asyncFunctions m @ m_syncFunctions m).
          \<exists>ty. types c = Some ty
            \<and> n \<in> maybeUnwrapSwiftArray ` (typename ` set (parameters ty)
                    \<union> {r. returnType ty = Some r \<and> r \<noteq> []})"
    then obtain c ty where c: "c \<in> set (m_functions m @ m_asyncFunctions m @ m_syncFunctions m)"
      and ty: "types c = Some ty"
      and n: "n \<in> maybeUnwrapSwiftArray ` (typename ` set (parameters ty)
                    \<union> {r. returnType ty = Some r \<and> r \<noteq> []})" by blast
    from n ty have "n \<in> set (pushFoundTypes (types c) [])"
      by (simp only: set_pushFoundTypes)
    with c show "n \<in> (\<Union>c \<in> set (m_functions m @ m_asyncFunctions m @ m_syncFunctions m).
           set (pushFoundTypes (types c) []))" by blast
  qed
  with found show ?thesis
    by (auto simp: getTypesToMock_def Let_def set_newSet)
qed

text \<open>
  C5: the scanner is to strip the array wrapping of a type name recursively, so that
  \<^verbatim>\<open>[[Foo]]\<close> yields \<^verbatim>\<open>Foo\<close>. It removes one pair of brackets only: for a function
  with a parameter of type \<^verbatim>\<open>[[Foo]]\<close> that returns \<^verbatim>\<open>[Bar]\<close> it finds \<^verbatim>\<open>Bar\<close> and
  not \<^verbatim>\<open>Foo\<close>, since \<^verbatim>\<open>[Foo]\<close> maps to an array type, although the mapper gives the
  parameter the type \<^verbatim>\<open>Foo[][]\<close> and classifies \<^verbatim>\<open>Foo\<close> as a type reference.
\<close>

theorem getTypesToMock_nested_array:
  "getTypesToMock \<lparr>m_name = ''M'',
      m_functions = [\<lparr>closure_name = ''f'',
         types = Some \<lparr>parameters = [\<lparr>name = ''p'', typename = ''[[Foo]]''\<rparr>],
                       returnType = Some ''[Bar]''\<rparr>\<rparr>],
      m_asyncFunctions = [], m_syncFunctions = []\<rparr> = [''Bar'']
   \<and> maybeUnwrapSwiftArray ''[[Foo]]'' = ''[Foo]''
   \<and> mapSwiftTypeToTsType ''[[Foo]]''
       = ArrayTypeNode (ArrayTypeNode (TypeReferenceNode ''Foo'' []))
   \<and> kind (mapSwiftTypeToTsType ''Foo'') = TypeReference"
  by code_simp

section \<open>Properties of the declarations of a module\<close>

lemma export_getMockedFunctions:
  "d \<in> set (getMockedFunctions fns async) \<Longrightarrow> ExportKeyword \<in> set (decl_modifiers d)"
  by (auto simp: getMockedFunctions_def Let_def)

lemma async_getMockedFunctions:
  "d \<in> set (getMockedFunctions fns True) \<Longrightarrow> AsyncKeyword \<in> set (decl_modifiers d)"
  by (auto simp: getMockedFunctions_def Let_def)

lemma export_getMockedTypes:
  "d \<in> set (getMockedTypes tys) \<Longrightarrow> ExportKeyword \<in> set (decl_modifiers d)"
  by (auto simp: getMockedTypes_def)

lemma names_getMockedFunctions:
  "map decl_name (getMockedFunctions fns async) = map closure_name fns"
  by (simp add: getMockedFunctions_def Let_def)

text \<open>
  C6: the declarations of a module are the type aliases, then the declarations of the
  plain functions, then those of the asynchronous functions; the functions keep the
  order of the input, the asynchronous ones are marked \<^verbatim>\<open>async\<close>, and every
  declaration is exported.
\<close>

theorem getMockForModule_concat:
  "getMockForModule m
     = getMockedTypes (getTypesToMock m)
       @ getMockedFunctions (m_functions m) False
       @ getMockedFunctions (m_asyncFunctions m) True
   \<and> map decl_name (getMockedFunctions (m_functions m) False)
       = map closure_name (m_functions m)
   \<and> map decl_name (getMockedFunctions (m_asyncFunctions m) True)
       = map closure_name (m_asyncFunctions m)
   \<and> (\<forall>d \<in> set (getMockedFunctions (m_asyncFunctions m) True).
         AsyncKeyword \<in> set (decl_modifiers d))
   \<and> (\<forall>d \<in> set (getMockForModule m). ExportKeyword \<in> set (decl_modifiers d))"
proof -
  have cat: "getMockForModule m
     = getMockedTypes (getTypesToMock m)
       @ getMockedFunctions (m_functions m) False
       @ getMockedFunctions (m_asyncFunctions m) True"
    by (simp add: getMockForModule_def)
  have ex: "\<forall>d \<in> set (getMockForModule m). ExportKeyword \<in> set (decl_modifiers d)"
    unfolding cat
    using export_getMockedFunctions export_getMockedTypes by auto
  have as: "\<forall>d \<in> set (getMockedFunctions (m_asyncFunctions m) True).
         AsyncKeyword \<in> set (decl_modifiers d)"
    using async_getMockedFunctions by blast
  from cat ex as names_getMockedFunctions show ?thesis by blast
qed

theorem getMockForModule_concat_witness:
  "getMockForModule \<lparr>m_name = ''ExampleModule'',
      m_functions = [\<lparr>closure_name = ''getValue'',
         types = Some \<lparr>parameters = [\<lparr>name = ''item'', typename = ''Foo''\<rparr>],
                       returnType = Some ''Int''\<rparr>\<rparr>],
      m_asyncFunctions = [\<lparr>closure_name = ''getValueAsync'',
         types = Some \<lparr>parameters = [\<lparr>name = ''id'', typename = ''String''\<rparr>],
                       returnType = Some ''Bool''\<rparr>\<rparr>],
      m_syncFunctions = []\<rparr>
   = [TypeAliasDeclaration [ExportKeyword] ''Foo'' (KeywordTypeNode AnyKeyword),
      FunctionDeclaration [ExportKeyword] ''getValue''
        [\<lparr>pd_name = ''item'', pd_type = TypeReferenceNode ''Foo'' []\<rparr>]
        (KeywordTypeNode NumberKeyword) (Block [ReturnStatement (NumericLiteral ''0'')] True),
      FunctionDeclaration [ExportKeyword, AsyncKeyword] ''getValueAsync''
        [\<lparr>pd_name = ''id'', pd_type = KeywordTypeNode StringKeyword\<rparr>]
        (TypeReferenceNode ''Promise'' [KeywordTypeNode BooleanKeyword])
        (Block [ReturnStatement FalseLiteral] True)]
   \<and> list_all (\<lambda>d. ExportKeyword \<in> set (decl_modifiers d))
       (getMockForModule \<lparr>m_name = ''ExampleModule'',
      m_functions = [\<lparr>closure_name = ''getValue'',
         types = Some \<lparr>parameters = [\<lparr>name = ''item'', typename = ''Foo''\<rparr>],
                       returnType = Some ''Int''\<rparr>\<rparr>],
      m_asyncFunctions = [\<lparr>closure_name = ''getValueAsync'',
         types = Some \<lparr>parameters = [\<lparr>name = ''id'', typename = ''String''\<rparr>],
                       returnType = Some ''Bool''\<rparr>\<rparr>],
      m_syncFunctions = []\<rparr>)
   \<and> list_all (\<lambda>d. AsyncKeyword \<in> set (decl_modifiers d))
       (getMockedFunctions (m_asyncFunctions \<lparr>m_name = ''ExampleModule'',
      m_functions = [\<lparr>closure_name = ''getValue'',
         types = Some \<lparr>parameters = [\<lparr>name = ''item'', typename = ''Foo''\<rparr>],
                       returnType = Some ''Int''\<rparr>\<rparr>],
      m_asyncFunctions = [\<lparr>closure_name = ''getValueAsync'',
         types = Some \<lparr>parameters = [\<lparr>name = ''id'', typename = ''String''\<rparr>],
                       returnType = Some ''Bool''\<rparr>\<rparr>],
      m_syncFunctions = []\<rparr>) True)
   \<and> getMockedFunctions (m_asyncFunctions \<lparr>m_name = ''ExampleModule'',
      m_functions = [\<lparr>closure_name = ''getValue'',
         types = Some \<lparr>parameters = [\<lparr>name = ''item'', typename = ''Foo''\<rparr>],
                       returnType = Some ''Int''\<rparr>\<rparr>],
      m_asyncFunctions = [\<lparr>closure_name = ''getValueAsync'',
         types = Some \<lparr>parameters = [\<lparr>name = ''id'', typename = ''String''\<rparr>],
                       returnType = Some ''Bool''\<rparr>\<rparr>],
      m_syncFunctions = []\<rparr>) True \<noteq> []"
proof -
  have ev: "getMockForModule \<lparr>m_name = ''ExampleModule'',
      m_functions = [\<lparr>closure_name = ''getValue'',
         types = Some \<lparr>parameters = [\<lparr>name = ''item'', typename = ''Foo''\<rparr>],
                       returnType = Some ''Int''\<rparr>\<rparr>],
      m_asyncFunctions = [\<lparr>closure_name = ''getValueAsync'',
         types = Some \<lparr>parameters = [\<lparr>name = ''id'', typename = ''String''\<rparr>],
                       returnType = Some ''Bool''\<rparr>\<rparr>],
      m_syncFunctions = []\<rparr>
   = [TypeAliasDeclaration [ExportKeyword] ''Foo'' (KeywordTypeNode AnyKeyword),
      FunctionDeclaration [ExportKeyword] ''getValue''
        [\<lparr>pd_name = ''item'', pd_type = TypeReferenceNode ''Foo'' []\<rparr>]
        (KeywordTypeNode NumberKeyword) (Block [ReturnStatement (NumericLiteral ''0'')] True),
      FunctionDeclaration [ExportKeyword, AsyncKeyword] ''getValueAsync''
        [\<lparr>pd_name = ''id'', pd_type = KeywordTypeNode StringKeyword\<rparr>]
        (TypeReferenceNode ''Promise'' [KeywordTypeNode BooleanKeyword])
        (Block [ReturnStatement FalseLiteral] True)]"
    by code_simp
  have ne: "getMockedFunctions (m_asyncFunctions \<lparr>m_name = ''ExampleModule'',
      m_functions = [\<lparr>closure_name = ''getValue'',
         types = Some \<lparr>parameters = [\<lparr>name = ''item'', typename = ''Foo''\<rparr>],
                       returnType = Some ''Int''\<rparr>\<rparr>],
      m_asyncFunctions = [\<lparr>closure_name = ''getValueAsync'',
         types = Some \<lparr>parameters = [\<lparr>name = ''id'', typename = ''String''\<rparr>],
                       returnType = Some ''Bool''\<rparr>\<rparr>],
      m_syncFunctions = []\<rparr>) True \<noteq> []"
    by (simp add: getMockedFunctions_def)
  from getMockForModule_concat [of "\<lparr>m_name = ''ExampleModule'',
      m_functions = [\<lparr>closure_name = ''getValue'',
         types = Some \<lparr>parameters = [\<lparr>name = ''item'', typename = ''Foo''\<rparr>],
                       returnType = Some ''Int''\<rparr>\<rparr>],
      m_asyncFunctions = [\<lparr>closure_name = ''getValueAsync'',
         types = Some \<lparr>parameters = [\<lparr>name = ''id'', typename = ''String''\<rparr>],
                       returnType = Some ''Bool''\<rparr>\<rparr>],
      m_syncFunctions = []\<rparr>"]
  have "list_all (\<lambda>d. ExportKeyword \<in> set (decl_modifiers d))
       (getMockForModule \<lparr>m_name = ''ExampleModule'',
      m_functions = [\<lparr>closure_name = ''getValue'',
         types = Some \<lparr>parameters = [\<lparr>name = ''item'', typename = ''Foo''\<rparr>],
                       returnType = Some ''Int''\<rparr>\<rparr>],
      m_asyncFunctions = [\<lparr>closure_name = ''getValueAsync'',
         types = Some \<lparr>parameters = [\<lparr>name = ''id'', typename = ''String''\<rparr>],
                       returnType = Some ''Bool''\<rparr>\<rparr>],
      m_syncFunctions = []\<rparr>)
    \<and> list_all (\<lambda>d. AsyncKeyword \<in> set (decl_modifiers d))
       (getMockedFunctions (m_asyncFunctions \<lparr>m_name = ''ExampleModule'',
      m_functions = [\<lparr>closure_name = ''getValue'',
         types = Some \<lparr>parameters = [\<lparr>name = ''item'', typename = ''Foo''\<rparr>],
                       returnType = Some ''Int''\<rparr>\<rparr>],
      m_asyncFunctions = [\<lparr>closure_name = ''getValueAsync'',
         types = Some \<lparr>parameters = [\<lparr>name = ''id'', typename = ''String''\<rparr>],
                       returnType = Some ''Bool''\<rparr>\<rparr>],
      m_syncFunctions = []\<rparr>) True)"
    unfolding list_all_iff by blast
  with ev ne show ?thesis by blast
qed

section \<open>The textual form of a mapped type\<close>

lemma tokenToString_mapped:
  "k \<in> {VoidKeyword, AnyKeyword, StringKeyword, BooleanKeyword, NumberKeyword} \<Longrightarrow>
   mapSwiftTypeToTsType (tokenToString k) = TypeReferenceNode (tokenToString k) []"
  by (subst mapSwiftTypeToTsType.simps) (auto simp: isSwiftArray_def startsWith_def)

text \<open>
  A name that maps to a keyword type is never the keyword: the text of the keyword maps
  to a type reference.
\<close>

lemma mapSwiftTypeToTsType_keyword_text:
  "mapSwiftTypeToTsType s = KeywordTypeNode k \<Longrightarrow>
     kind (mapSwiftTypeToTsType (printTypeNode (mapSwiftTypeToTsType s))) = TypeReference"
  using mapSwiftTypeToTsType_keyword_cases [of s k] tokenToString_mapped [of k]
  by simp

text \<open>
  Whatever the textual form \<open>r\<close> of a type node is, mapping it again gives the string
  keyword at \<^verbatim>\<open>String\<close> only if it writes that keyword \<^verbatim>\<open>String\<close>, as Swift does and
  TypeScript does not.
\<close>

lemma mapSwiftTypeToTsType_StringKeyword:
  "kind (mapSwiftTypeToTsType s) = StringKeyword \<Longrightarrow> s = ''String''"
  by (subst (asm) mapSwiftTypeToTsType.simps) (auto split: if_splits)

lemma remap_String_forces_text:
  "kind (mapSwiftTypeToTsType (r (mapSwiftTypeToTsType ''String'')))
     = kind (mapSwiftTypeToTsType ''String'')
   \<Longrightarrow> r (KeywordTypeNode StringKeyword) = ''String''"
  using mapSwiftTypeToTsType_StringKeyword [of "r (KeywordTypeNode StringKeyword)"]
  by (simp add: mapSwiftTypeToTsType_bare not_isSwiftArray_prims)

lemma kind_ArrayType_iff:
  "kind (mapSwiftTypeToTsType x) = ArrayType \<longleftrightarrow> isSwiftArray x"
  by (subst mapSwiftTypeToTsType.simps)
     (auto simp: isSwiftArray_def startsWith_def)

lemma printTypeNode_array_text:
  "endsWith (printTypeNode t @ ''[]'') CHR '']''"
  "printTypeNode t @ ''[]'' \<noteq> []"
  by (simp_all add: endsWith_def)

text \<open>
  The text of an array type ends with \<^verbatim>\<open>[]\<close>: it is never one of the six recognised
  names, and it is in the array syntax of Swift exactly when it starts with a bracket.
\<close>

lemma remap_array_text:
  "kind (mapSwiftTypeToTsType (printTypeNode t @ ''[]''))
     = (if startsWith (printTypeNode t @ ''[]'') CHR ''['' then ArrayType else TypeReference)"
proof (cases "startsWith (printTypeNode t @ ''[]'') CHR ''[''")
  case True
  then have "isSwiftArray (printTypeNode t @ ''[]'')"
    by (simp add: isSwiftArray_def printTypeNode_array_text)
  with True show ?thesis by (simp add: kind_ArrayType_iff)
next
  case False
  then have na: "\<not> isSwiftArray (printTypeNode t @ ''[]'')"
    by (simp add: isSwiftArray_def)
  have "last (printTypeNode t @ ''[]'') = CHR '']''" by simp
  then have "printTypeNode t @ ''[]''
      \<notin> {''unknown'', ''String'', ''Bool'', ''Int'', ''Float'', ''Double''}"
    by auto
  with na have "mapSwiftTypeToTsType (printTypeNode t @ ''[]'')
      = TypeReferenceNode (printTypeNode t @ ''[]'') []"
    by (subst mapSwiftTypeToTsType.simps) simp
  with False show ?thesis by simp
qed

text \<open>The classification of the text of a mapped type, for every name.\<close>

lemma remapped_text_kind:
  "kind (mapSwiftTypeToTsType (printTypeNode (mapSwiftTypeToTsType s)))
     = (if kind (mapSwiftTypeToTsType s) = ArrayType
           \<and> startsWith (printTypeNode (mapSwiftTypeToTsType s)) CHR ''[''
        then ArrayType else TypeReference)"
proof (cases "mapSwiftTypeToTsType s")
  case (KeywordTypeNode k)
  from mapSwiftTypeToTsType_keyword_cases [OF KeywordTypeNode]
  have "k \<noteq> ArrayType" by auto
  with mapSwiftTypeToTsType_keyword_text [OF KeywordTypeNode] KeywordTypeNode
  show ?thesis by simp
next
  case (TypeReferenceNode n args)
  then have "kind (mapSwiftTypeToTsType s) = TypeReference" by simp
  then have "mapSwiftTypeToTsType s = TypeReferenceNode s []"
    by (rule mapSwiftTypeToTsType_TypeReference)
  then show ?thesis by simp
next
  case (ArrayTypeNode t)
  then show ?thesis by (simp add: remap_array_text)
qed

text \<open>
  C7, as stated: mapping the textual form of a mapped type gives the kind of the first
  mapping. It fails on a name of each kind but the opaque one: \<^verbatim>\<open>String\<close> maps to the
  string keyword, whose text \<^verbatim>\<open>string\<close> maps to a type reference; the empty name maps
  to void, whose text \<^verbatim>\<open>void\<close> maps to a type reference; \<^verbatim>\<open>[Int]\<close> maps to an array
  type, whose text \<^verbatim>\<open>number[]\<close> maps to a type reference.
\<close>

theorem remap_String_counterexample:
  "kind (mapSwiftTypeToTsType (printTypeNode (mapSwiftTypeToTsType ''String'')))
     \<noteq> kind (mapSwiftTypeToTsType ''String'')
   \<and> kind (mapSwiftTypeToTsType (printTypeNode (mapSwiftTypeToTsType [])))
     \<noteq> kind (mapSwiftTypeToTsType [])
   \<and> kind (mapSwiftTypeToTsType (printTypeNode (mapSwiftTypeToTsType ''[Int]'')))
     \<noteq> kind (mapSwiftTypeToTsType ''[Int]'')"
proof (intro conjI)
  show "kind (mapSwiftTypeToTsType (printTypeNode (mapSwiftTypeToTsType ''String'')))
     \<noteq> kind (mapSwiftTypeToTsType ''String'')"
    by (simp add: mapSwiftTypeToTsType_bare not_isSwiftArray_prims isSwiftArray_def
          startsWith_def)
next
  show "kind (mapSwiftTypeToTsType (printTypeNode (mapSwiftTypeToTsType [])))
     \<noteq> kind (mapSwiftTypeToTsType [])"
    by (simp add: mapSwiftTypeToTsType_empty mapSwiftTypeToTsType_bare isSwiftArray_def
          startsWith_def)
next
  have m: "mapSwiftTypeToTsType ''[Int]'' = ArrayTypeNode (KeywordTypeNode NumberKeyword)"
    using mapSwiftTypeToTsType_wrap [of "''Int''"]
    by (simp add: mapSwiftTypeToTsType_bare not_isSwiftArray_prims)
  show "kind (mapSwiftTypeToTsType (printTypeNode (mapSwiftTypeToTsType ''[Int]'')))
     \<noteq> kind (mapSwiftTypeToTsType ''[Int]'')"
    by (simp add: m mapSwiftTypeToTsType_bare isSwiftArray_def startsWith_def)
qed

text \<open>
  C7, amended: for every name, the text of the mapped type maps to an array type when
  the mapped type is an array type whose text starts with a bracket, and to a type
  reference otherwise. So the second mapping has the kind of the first exactly when
  the name maps to a type reference, or to an array type whose text starts with a
  bracket (as \<^verbatim>\<open>[[]\<close> does), and never when the name maps to a keyword type; and a
  name that maps to a type reference gets the same mapped type again, not only the
  same kind.
\<close>

theorem remap_kind:
  "kind (mapSwiftTypeToTsType (printTypeNode (mapSwiftTypeToTsType s)))
     = (if kind (mapSwiftTypeToTsType s) = ArrayType
           \<and> startsWith (printTypeNode (mapSwiftTypeToTsType s)) CHR ''[''
        then ArrayType else TypeReference)
   \<and> ((kind (mapSwiftTypeToTsType (printTypeNode (mapSwiftTypeToTsType s)))
          = kind (mapSwiftTypeToTsType s))
        = (kind (mapSwiftTypeToTsType s) = TypeReference
           \<or> kind (mapSwiftTypeToTsType s) = ArrayType
             \<and> startsWith (printTypeNode (mapSwiftTypeToTsType s)) CHR ''[''))
   \<and> (kind (mapSwiftTypeToTsType s) = TypeReference \<longrightarrow>
        mapSwiftTypeToTsType (printTypeNode (mapSwiftTypeToTsType s))
          = mapSwiftTypeToTsType s)"
proof (intro conjI impI)
  show eq: "kind (mapSwiftTypeToTsType (printTypeNode (mapSwiftTypeToTsType s)))
     = (if kind (mapSwiftTypeToTsType s) = ArrayType
           \<and> startsWith (printTypeNode (mapSwiftTypeToTsType s)) CHR ''[''
        then ArrayType else TypeReference)"
    by (rule remapped_text_kind)
  show "(kind (mapSwiftTypeToTsType (printTypeNode (mapSwiftTypeToTsType s)))
          = kind (mapSwiftTypeToTsType s))
        = (kind (mapSwiftTypeToTsType s) = TypeReference
           \<or> kind (mapSwiftTypeToTsType s) = ArrayType
             \<and> startsWith (printTypeNode (mapSwiftTypeToTsType s)) CHR ''['')"
    unfolding eq by auto
next
  assume "kind (mapSwiftTypeToTsType s) = TypeReference"
  then have "mapSwiftTypeToTsType s = TypeReferenceNode s []"
    by (rule mapSwiftTypeToTsType_TypeReference)
  then show "mapSwiftTypeToTsType (printTypeNode (mapSwiftTypeToTsType s))
      = mapSwiftTypeToTsType s"
    by simp
qed

theorem remap_kind_witness:
  "kind (mapSwiftTypeToTsType ''CustomRecord'') = TypeReference
   \<and> mapSwiftTypeToTsType (printTypeNode (mapSwiftTypeToTsType ''CustomRecord''))
       = mapSwiftTypeToTsType ''CustomRecord''
   \<and> kind (mapSwiftTypeToTsType (printTypeNode (mapSwiftTypeToTsType ''CustomRecord'')))
       = kind (mapSwiftTypeToTsType ''CustomRecord'')"
proof -
  have k: "kind (mapSwiftTypeToTsType ''CustomRecord'') = TypeReference"
    by (simp add: mapSwiftTypeToTsType_bare isSwiftArray_def startsWith_def)
  from k remap_kind [of "''CustomRecord''"] show ?thesis by simp
qed

text \<open>
  The name \<^verbatim>\<open>[[]\<close> maps to the array of the type reference \<^verbatim>\<open>[\<close>, whose text is
  \<^verbatim>\<open>[[]\<close> again: an array name on which the second mapping agrees with the first.
\<close>

lemma remap_open_bracket:
  "mapSwiftTypeToTsType ''[[]'' = ArrayTypeNode (TypeReferenceNode ''['' [])
   \<and> printTypeNode (mapSwiftTypeToTsType ''[[]'') = ''[[]''
   \<and> kind (mapSwiftTypeToTsType (printTypeNode (mapSwiftTypeToTsType ''[[]'')))
       = kind (mapSwiftTypeToTsType ''[[]'')"
proof -
  have "mapSwiftTypeToTsType ''[[]'' = ArrayTypeNode (mapSwiftTypeToTsType ''['')"
    using mapSwiftTypeToTsType_wrap [of "''[''"] by simp
  moreover have "mapSwiftTypeToTsType ''['' = TypeReferenceNode ''['' []"
    by (simp add: mapSwiftTypeToTsType_bare isSwiftArray_def startsWith_def endsWith_def)
  ultimately show ?thesis by simp
qed

end
